theory Spec2Isabelle
  imports Complex_Main "HOL-Library.Stream"
begin

section \<open>Python values used by the triage agent\<close>

subsection \<open>Floats\<close>

text \<open>
  The vitals of a patient are Python floats. The triage code never does arithmetic on them:
  it only compares them with literals. A float is therefore modelled by the value it
  denotes: a finite float is the rational number it stands for (every IEEE double is a
  dyadic rational, and positive and negative zero compare equal), and the three special
  values are kept apart. Comparisons are those of IEEE 754 as Python performs them: every
  ordered comparison with NaN is false. A statement proved for all rationals holds in
  particular for the doubles.
\<close>

datatype pyfloat = Finite rat | PosInf | NegInf | NaN

fun float_lt :: "pyfloat \<Rightarrow> pyfloat \<Rightarrow> bool" where
  "float_lt NaN y = False"
| "float_lt x NaN = False"
| "float_lt (Finite a) (Finite b) = (a < b)"
| "float_lt (Finite a) PosInf = True"
| "float_lt (Finite a) NegInf = False"
| "float_lt PosInf y = False"
| "float_lt NegInf (Finite b) = True"
| "float_lt NegInf PosInf = True"
| "float_lt NegInf NegInf = False"

definition float_gt :: "pyfloat \<Rightarrow> pyfloat \<Rightarrow> bool" where
  "float_gt x y = float_lt y x"

fun float_eq :: "pyfloat \<Rightarrow> pyfloat \<Rightarrow> bool" where
  "float_eq NaN y = False"
| "float_eq x NaN = False"
| "float_eq x y = (x = y)"

definition float_le :: "pyfloat \<Rightarrow> pyfloat \<Rightarrow> bool" where
  "float_le x y = (float_lt x y \<or> float_eq x y)"

definition float_ge :: "pyfloat \<Rightarrow> pyfloat \<Rightarrow> bool" where
  "float_ge x y = float_le y x"

text \<open>
  An integer literal compared with a float is compared by its exact value. A float literal
  denotes the double nearest to its decimal text; the four literals of the source that are
  not integers are written out exactly.
\<close>

definition of_int_lit :: "int \<Rightarrow> pyfloat" where
  "of_int_lit n = Finite (of_int n)"

definition lit_0_9 :: pyfloat where
  "lit_0_9 = Finite (8106479329266893 / 9007199254740992)"

definition lit_1_2 :: pyfloat where
  "lit_1_2 = Finite (5404319552844595 / 4503599627370496)"

definition lit_0_6 :: pyfloat where
  "lit_0_6 = Finite (5404319552844595 / 9007199254740992)"

definition lit_0_2 :: pyfloat where
  "lit_0_2 = Finite (3602879701896397 / 18014398509481984)"

subsection \<open>Strings\<close>

text \<open>
  A Python string is modelled by its UTF-8 bytes. The source applies two string operations:
  \<^verbatim>\<open>lower()\<close> followed by a comparison with an ASCII literal, and the substring test
  \<^verbatim>\<open>in\<close> with an ASCII needle. On bytes, \<open>lower\<close> maps \<open>A\<close> to \<open>Z\<close> to small letters
  and leaves every other byte as it is. For a string with a character outside ASCII the
  bytes of Python's result may differ from these, but not the outcome of the comparison:
  the only such character whose lower case is plain ASCII is the Kelvin sign, which becomes
  \<open>k\<close>, a letter the literal does not contain. An ASCII needle occurs among the UTF-8 bytes
  exactly where it occurs among the characters.
\<close>

definition lower_char :: "char \<Rightarrow> char" where
  "lower_char c =
     (let n = (of_char c :: nat) in if 65 \<le> n \<and> n \<le> 90 then char_of (n + 32) else c)"

definition lower :: "string \<Rightarrow> string" where
  "lower s = map lower_char s"

fun str_in :: "string \<Rightarrow> string \<Rightarrow> bool" where
  "str_in needle [] = (needle = [])"
| "str_in needle (c # cs) = (take (length needle) (c # cs) = needle \<or> str_in needle cs)"

subsection \<open>Exceptions and the random module\<close>

text \<open>
  Whatever Python raises is an instance of \<^verbatim>\<open>BaseException\<close>. Two things about a raised
  object matter to the code: whether it is an instance of the class \<^verbatim>\<open>Exception\<close>, which
  is what \<^verbatim>\<open>except Exception\<close> catches (\<^verbatim>\<open>KeyboardInterrupt\<close>, \<^verbatim>\<open>SystemExit\<close> and
  \<^verbatim>\<open>GeneratorExit\<close> are not), and what \<^verbatim>\<open>str\<close> of it gives, which is a string or, for a
  class with a \<^verbatim>\<open>__str__\<close> of its own, may raise in turn. \<open>Raised b s\<close> is an object with
  these two properties; an \<^verbatim>\<open>IndexError\<close> is an instance of \<^verbatim>\<open>Exception\<close> and its string
  is its message.
\<close>

datatype BaseException = IndexError string | Raised bool "BaseException + string"

fun is_Exception :: "BaseException \<Rightarrow> bool" where
  "is_Exception (IndexError m) = True"
| "is_Exception (Raised b s) = b"

fun py_str :: "BaseException \<Rightarrow> BaseException + string" where
  "py_str (IndexError m) = Inr m"
| "py_str (Raised b s) = s"

text \<open>
  The standard output is the list of the lines printed so far. Whether writing a text to
  it succeeds is up to the stream: \<open>stdout_write\<close> gives the exception that writing a text
  raises, if any (a closed or broken stream, a character the stream cannot encode).
\<close>

type_synonym stdout = "string list"

definition py_print ::
    "(string \<Rightarrow> BaseException option) \<Rightarrow> string \<Rightarrow> stdout \<Rightarrow> BaseException + stdout" where
  "py_print stdout_write s out =
     (case stdout_write s of Some e \<Rightarrow> Inl e | None \<Rightarrow> Inr (out @ [s]))"

text \<open>
  The state of the module \<^verbatim>\<open>random\<close> is the stream of raw draws still to come.
  \<^verbatim>\<open>random.choice(seq)\<close> raises \<^verbatim>\<open>IndexError\<close> on an empty sequence and otherwise
  returns \<^verbatim>\<open>seq[randbelow(len(seq))]\<close>, consuming a draw.
\<close>

type_synonym rng = "nat stream"

definition randbelow :: "nat \<Rightarrow> rng \<Rightarrow> nat \<times> rng" where
  "randbelow n g = (shd g mod n, stl g)"

definition random_choice :: "'a list \<Rightarrow> rng \<Rightarrow> BaseException + ('a \<times> rng)" where
  "random_choice seq g =
     (if seq = [] then Inl (IndexError ''Cannot choose from an empty sequence'')
      else (case randbelow (length seq) g of (i, g') \<Rightarrow> Inr (seq ! i, g')))"

section \<open>The data models of \<^verbatim>\<open>agent/triage.py\<close>\<close>

record Patient =
  age :: int
  sex :: int
  hr :: pyfloat
  sbp :: pyfloat
  dbp :: pyfloat
  rr :: pyfloat
  spo2 :: pyfloat
  temp :: pyfloat
  dyspnea :: int
  chest_pain :: int
  confusion :: int
  comorb :: int
  pulse_pressure :: pyfloat
  map_pressure :: pyfloat
  shock_index :: pyfloat
  abnormal_count :: int

record PredictionResult =
  risk :: string
  intervention :: string

section \<open>The rule-based intervention\<close>

definition rule_based_intervention :: "Patient \<Rightarrow> string \<Rightarrow> string" where
  "rule_based_intervention patient risk_class =
     (if float_lt (spo2 patient) (of_int_lit 88) then ''Oxygen''
      else if lower risk_class = ''immediate (red)'' then ''ICU''
      else if float_gt (hr patient) (of_int_lit 130) \<or> float_lt (sbp patient) (of_int_lit 80)
              \<or> float_gt (shock_index patient) lit_1_2 then ''Ventilator''
      else ''Nil'')"

section \<open>The triage logic\<close>

text \<open>
  \<open>rule_risk\<close> is the \<^verbatim>\<open>if\<close>/\<^verbatim>\<open>elif\<close> chain of \<^verbatim>\<open>get_rule_based_prediction\<close> that
  assigns \<^verbatim>\<open>risk\<close>; only its last branch reads the random module.
\<close>

definition rule_risk :: "Patient \<Rightarrow> rng \<Rightarrow> BaseException + (string \<times> rng)" where
  "rule_risk patient g =
     (if float_gt (shock_index patient) lit_0_9 \<or> float_lt (sbp patient) (of_int_lit 90)
        then Inr (''Immediate (RED)'', g)
      else if abnormal_count patient \<ge> 3 \<or> confusion patient = 1 \<or> chest_pain patient = 1
        then Inr (''Delayed (YELLOW)'', g)
      else if float_lt (hr patient) (of_int_lit 100) \<and> float_gt (sbp patient) (of_int_lit 100)
              \<and> float_gt (spo2 patient) (of_int_lit 95)
        then Inr (''Minimal (GREEN)'', g)
      else random_choice [''Delayed (YELLOW)'', ''Minimal (GREEN)''] g)"

definition get_rule_based_prediction ::
    "Patient \<Rightarrow> rng \<Rightarrow> BaseException + (PredictionResult \<times> rng)" where
  "get_rule_based_prediction patient g =
     (case rule_risk patient g of
        Inl e \<Rightarrow> Inl e
      | Inr (r, g') \<Rightarrow>
          Inr (\<lparr>risk = r, intervention = rule_based_intervention patient r\<rparr>, g'))"

subsection \<open>The classifier\<close>

text \<open>
  The classifier is an opaque object of the caller: \<^verbatim>\<open>MODEL\<close> is \<open>None\<close> or a
  \<^verbatim>\<open>predict\<close> function from a data frame to a sequence of integer class labels, which
  may raise. The data frame is built by pandas from one row, the dictionary of the sixteen
  fields of the patient; the construction is a parameter too, and may raise as well.
  What they raise is any value of \<open>BaseException\<close>.
\<close>

datatype pyval = PyInt int | PyFloat pyfloat

type_synonym row = "(string \<times> pyval) list"

definition input_row :: "Patient \<Rightarrow> row" where
  "input_row patient =
     [(''age'', PyInt (age patient)),
      (''sex'', PyInt (sex patient)),
      (''hr'', PyFloat (hr patient)),
      (''sbp'', PyFloat (sbp patient)),
      (''dbp'', PyFloat (dbp patient)),
      (''rr'', PyFloat (rr patient)),
      (''spo2'', PyFloat (spo2 patient)),
      (''temp'', PyFloat (temp patient)),
      (''dyspnea'', PyInt (dyspnea patient)),
      (''chest_pain'', PyInt (chest_pain patient)),
      (''confusion'', PyInt (confusion patient)),
      (''comorb'', PyInt (comorb patient)),
      (''pulse_pressure'', PyFloat (pulse_pressure patient)),
      (''map'', PyFloat (map_pressure patient)),
      (''shock_index'', PyFloat (shock_index patient)),
      (''abnormal_count'', PyInt (abnormal_count patient))]"

definition first_item :: "'a list \<Rightarrow> BaseException + 'a" where
  "first_item xs =
     (case xs of [] \<Rightarrow> Inl (IndexError ''list index out of range'') | x # _ \<Rightarrow> Inr x)"

text \<open>
  \<open>model_risk\<close> is the body of the \<^verbatim>\<open>try\<close> block up to the assignment of
  \<^verbatim>\<open>risk\<close>: build the frame, call \<^verbatim>\<open>predict\<close>, take item 0, map the label.
\<close>

definition model_risk ::
    "(row list \<Rightarrow> BaseException + 'df) \<Rightarrow> ('df \<Rightarrow> BaseException + int list) \<Rightarrow> Patient
      \<Rightarrow> BaseException + string" where
  "model_risk pd_DataFrame predict patient =
     (case pd_DataFrame [input_row patient] of
        Inl e \<Rightarrow> Inl e
      | Inr input_df \<Rightarrow>
          (case predict input_df of
             Inl e \<Rightarrow> Inl e
           | Inr labels \<Rightarrow>
               (case first_item labels of
                  Inl e \<Rightarrow> Inl e
                | Inr pred_class \<Rightarrow>
                    Inr (if pred_class = 0 then ''Minimal (GREEN)''
                         else if pred_class = 1 then ''Delayed (YELLOW)''
                         else ''Immediate (RED)''))))"

text \<open>
  The text the handler prints: the f-string puts \<^verbatim>\<open>str(e)\<close> between its two fixed parts.
\<close>

definition fallback_message :: "string \<Rightarrow> string" where
  "fallback_message s = ''Model prediction error: '' @ s @ ''. Falling back to rule-based logic.''"

text \<open>
  \<open>rule_fallback\<close> is the statement \<^verbatim>\<open>return get_rule_based_prediction(patient)\<close>, which
  occurs twice in \<^verbatim>\<open>get_model_prediction\<close>; the rule engine prints nothing.
\<close>

definition rule_fallback ::
    "Patient \<Rightarrow> rng \<Rightarrow> stdout \<Rightarrow> BaseException + (PredictionResult \<times> rng \<times> stdout)" where
  "rule_fallback patient g out =
     (case get_rule_based_prediction patient g of
        Inl e \<Rightarrow> Inl e
      | Inr (res, g') \<Rightarrow> Inr (res, g', out))"

text \<open>
  \<^verbatim>\<open>get_model_prediction\<close> threads the random module and the standard output. An
  exception of the \<^verbatim>\<open>try\<close> block that is no instance of \<^verbatim>\<open>Exception\<close> passes the
  handler and reaches the caller. In the handler, formatting the message calls \<^verbatim>\<open>str(e)\<close>
  and \<^verbatim>\<open>print\<close> writes it; an exception of either leaves the function before the fallback
  is reached.
\<close>

definition get_model_prediction ::
    "(row list \<Rightarrow> BaseException + 'df) \<Rightarrow> ('df \<Rightarrow> BaseException + int list) option
      \<Rightarrow> (string \<Rightarrow> BaseException option) \<Rightarrow> Patient \<Rightarrow> rng \<Rightarrow> stdout
      \<Rightarrow> BaseException + (PredictionResult \<times> rng \<times> stdout)" where
  "get_model_prediction pd_DataFrame MODEL stdout_write patient g out =
     (case MODEL of
        None \<Rightarrow> rule_fallback patient g out
      | Some predict \<Rightarrow>
          (case model_risk pd_DataFrame predict patient of
             Inr r \<Rightarrow>
               Inr (\<lparr>risk = r, intervention = rule_based_intervention patient r\<rparr>, g, out)
           | Inl e \<Rightarrow>
               if \<not> is_Exception e then Inl e
               else (case py_str e of
                       Inl e' \<Rightarrow> Inl e'
                     | Inr s \<Rightarrow>
                         (case py_print stdout_write (fallback_message s) out of
                            Inl e' \<Rightarrow> Inl e'
                          | Inr out' \<Rightarrow> rule_fallback patient g out'))))"

section \<open>The severity score\<close>

definition map_risk_to_score :: "string \<Rightarrow> pyfloat" where
  "map_risk_to_score r =
     (if str_in ''RED'' r then lit_0_9
      else if str_in ''YELLOW'' r then lit_0_6
      else lit_0_2)"

section \<open>Example patients\<close>

text \<open>
  Concrete records on which the theorems below are exercised. Every float in them is a
  double: an integer or a dyadic fraction, or one of the literals above.
\<close>

definition patient_A :: Patient where
  "patient_A = \<lparr>age = 60, sex = 1, hr = Finite 90, sbp = Finite 85, dbp = Finite 50,
     rr = Finite 20, spo2 = Finite 92, temp = Finite 37, dyspnea = 0, chest_pain = 0,
     confusion = 0, comorb = 0, pulse_pressure = Finite 35, map_pressure = Finite 62,
     shock_index = Finite (9 / 8), abnormal_count = 2\<rparr>"

definition patient_B :: Patient where
  "patient_B = \<lparr>age = 35, sex = 0, hr = Finite 90, sbp = Finite 120, dbp = Finite 80,
     rr = Finite 16, spo2 = Finite 80, temp = Finite 37, dyspnea = 1, chest_pain = 0,
     confusion = 0, comorb = 0, pulse_pressure = Finite 40, map_pressure = Finite 93,
     shock_index = Finite (1 / 4), abnormal_count = 1\<rparr>"

definition patient_C :: Patient where
  "patient_C = \<lparr>age = 50, sex = 1, hr = Finite 140, sbp = Finite 120, dbp = Finite 80,
     rr = Finite 22, spo2 = Finite 97, temp = Finite 38, dyspnea = 0, chest_pain = 0,
     confusion = 0, comorb = 1, pulse_pressure = Finite 40, map_pressure = Finite 93,
     shock_index = Finite (1 / 2), abnormal_count = 1\<rparr>"

definition patient_C_hypoxic :: Patient where
  "patient_C_hypoxic = patient_C\<lparr>spo2 := Finite 80\<rparr>"

definition patient_D :: Patient where
  "patient_D = \<lparr>age = 70, sex = 0, hr = Finite 105, sbp = Finite 110, dbp = Finite 70,
     rr = Finite 24, spo2 = Finite 93, temp = Finite 39, dyspnea = 1, chest_pain = 0,
     confusion = 0, comorb = 1, pulse_pressure = Finite 40, map_pressure = Finite 83,
     shock_index = lit_0_2, abnormal_count = 4\<rparr>"

text \<open>\<open>patient_R\<close> meets none of the first three rules and reaches the random branch.\<close>

definition patient_R :: Patient where
  "patient_R = \<lparr>age = 41, sex = 1, hr = Finite 110, sbp = Finite 95, dbp = Finite 60,
     rr = Finite 18, spo2 = Finite 96, temp = Finite 37, dyspnea = 0, chest_pain = 0,
     confusion = 0, comorb = 0, pulse_pressure = Finite 35, map_pressure = Finite 72,
     shock_index = Finite (1 / 2), abnormal_count = 0\<rparr>"

text \<open>A record whose every vital is NaN.\<close>

definition patient_NaN :: Patient where
  "patient_NaN = \<lparr>age = 0, sex = 0, hr = NaN, sbp = NaN, dbp = NaN,
     rr = NaN, spo2 = NaN, temp = NaN, dyspnea = 0, chest_pain = 0,
     confusion = 0, comorb = 0, pulse_pressure = NaN, map_pressure = NaN,
     shock_index = NaN, abnormal_count = 0\<rparr>"

text \<open>
  Stand-ins for pandas, the classifier and the standard output: a frame that is its rows,
  a \<^verbatim>\<open>predict\<close> that raises a given exception or returns given labels, a stream that
  accepts every text and one that is closed. \<open>value_error\<close> is an ordinary exception with
  the message \<open>boom\<close>; \<open>keyboard_interrupt\<close> is no instance of \<^verbatim>\<open>Exception\<close>, and its
  string is empty.
\<close>

definition pandas_ok :: "row list \<Rightarrow> BaseException + row list" where
  "pandas_ok rows = Inr rows"

definition predict_raises :: "BaseException \<Rightarrow> row list \<Rightarrow> BaseException + int list" where
  "predict_raises e input_df = Inl e"

definition predict_returns :: "int list \<Rightarrow> row list \<Rightarrow> BaseException + int list" where
  "predict_returns labels input_df = Inr labels"

definition stdout_ok :: "string \<Rightarrow> BaseException option" where
  "stdout_ok s = None"

definition stdout_closed :: "string \<Rightarrow> BaseException option" where
  "stdout_closed s = Some (Raised True (Inr ''I/O operation on closed file.''))"

definition value_error :: BaseException where
  "value_error = Raised True (Inr ''boom'')"

definition keyboard_interrupt :: BaseException where
  "keyboard_interrupt = Raised False (Inr [])"

section \<open>Facts about the Python values\<close>

lemma lower_immediate: "lower ''Immediate (RED)'' = ''immediate (red)''"
  by (simp add: lower_def lower_char_def char_of_eq_iff)

lemma lower_delayed: "lower ''Delayed (YELLOW)'' = ''delayed (yellow)''"
  by (simp add: lower_def lower_char_def char_of_eq_iff)

lemma lower_minimal: "lower ''Minimal (GREEN)'' = ''minimal (green)''"
  by (simp add: lower_def lower_char_def char_of_eq_iff)

text \<open>
  On floats \<open>x \<ge> y\<close> excludes \<open>x < y\<close>, and \<open>x \<le> y\<close> excludes \<open>x > y\<close>; the converses
  fail at NaN, where all four are false.
\<close>

lemma float_ge_not_lt: "float_ge x y \<Longrightarrow> \<not> float_lt x y"
  by (cases x; cases y) (auto simp: float_ge_def float_le_def)

lemma float_le_not_gt: "float_le x y \<Longrightarrow> \<not> float_gt x y"
  by (cases x; cases y) (auto simp: float_gt_def float_le_def)

lemma float_nan_compare:
  "\<not> float_lt NaN y" "\<not> float_lt x NaN" "\<not> float_gt NaN y" "\<not> float_gt x NaN"
  "\<not> float_le NaN y" "\<not> float_le x NaN" "\<not> float_ge NaN y" "\<not> float_ge x NaN"
  by (cases x; cases y; simp add: float_gt_def float_le_def float_ge_def)+

lemma random_choice_pair:
  "random_choice [a, b] g = Inr (if shd g mod 2 = 0 then a else b, stl g)"
proof -
  have eq: "random_choice [a, b] g = Inr ([a, b] ! (shd g mod 2), stl g)"
    by (simp add: random_choice_def randbelow_def numeral_2_eq_2)
  consider "shd g mod 2 = 0" | "shd g mod 2 = 1" by arith
  then show ?thesis
  proof cases
    case 1
    with eq show ?thesis by simp
  next
    case 2
    with eq show ?thesis by simp
  qed
qed

section \<open>The rule engine\<close>

text \<open>
  C1. For every patient record with \<open>shock_index > 0.9\<close> or \<open>sbp < 90\<close>, the rule engine
  \<open>get_rule_based_prediction\<close> returns a result whose risk is \<open>Immediate (RED)\<close>, whatever the
  other fields and the state of the random module are; the random module is not read.
\<close>

theorem rule_engine_immediate:
  assumes "float_gt (shock_index p) lit_0_9 \<or> float_lt (sbp p) (of_int_lit 90)"
  shows "\<exists>r. get_rule_based_prediction p g = Inr (r, g) \<and> risk r = ''Immediate (RED)''"
  using assms by (simp add: get_rule_based_prediction_def rule_risk_def)

theorem rule_engine_immediate_witness:
  "(float_gt (shock_index patient_A) lit_0_9 \<or> float_lt (sbp patient_A) (of_int_lit 90))
   \<and> (\<exists>r. get_rule_based_prediction patient_A (sconst 0) = Inr (r, sconst 0)
        \<and> risk r = ''Immediate (RED)'')"
  using rule_engine_immediate [of patient_A "sconst 0"]
  by (simp add: patient_A_def float_gt_def lit_0_9_def of_int_lit_def)

text \<open>
  C7. The rule engine is total and never fails: for every record, NaN and infinite vitals
  included, and every state of the random module, \<open>get_rule_based_prediction\<close> raises no
  exception and the risk of its result is one of \<open>Immediate (RED)\<close>, \<open>Delayed (YELLOW)\<close>
  and \<open>Minimal (GREEN)\<close>. (Totality and determinism of the model are those of a HOL function
  of the record and the random state; the theorem adds that the outcome is never \<open>Inl\<close>.)
\<close>

theorem rule_engine_total:
  "\<exists>r g'. get_rule_based_prediction p g = Inr (r, g')
     \<and> risk r \<in> {''Immediate (RED)'', ''Delayed (YELLOW)'', ''Minimal (GREEN)''}"
  by (simp add: get_rule_based_prediction_def rule_risk_def random_choice_pair)

text \<open>
  On the record whose vitals are all NaN every threshold test is false, so the random branch
  decides: with a first draw of 1 the risk is \<open>Minimal (GREEN)\<close>.
\<close>

lemma rule_engine_nan:
  "get_rule_based_prediction patient_NaN (sconst 1)
     = Inr (\<lparr>risk = ''Minimal (GREEN)'', intervention = ''Nil''\<rparr>, sconst 1)"
  by (simp add: get_rule_based_prediction_def rule_risk_def random_choice_pair patient_NaN_def
      rule_based_intervention_def float_nan_compare lower_minimal)

text \<open>
  C6. For every record on which rule 1 does not fire and \<open>abnormal_count \<ge> 3\<close> or
  \<open>confusion = 1\<close> or \<open>chest_pain = 1\<close> holds, the rule engine returns \<open>Delayed (YELLOW)\<close>.
  Rule 1 not firing is stated both as the negation of its test and as
  \<open>shock_index \<le> 0.9\<close> and \<open>sbp \<ge> 90\<close>. In particular, with no classifier loaded, a
  record with \<open>abnormal_count = 4\<close>, \<open>confusion = 0\<close>, \<open>chest_pain = 0\<close>,
  \<open>shock_index = 0.2\<close> and \<open>sbp = 110\<close> gets the risk \<open>Delayed (YELLOW)\<close> from
  \<open>get_model_prediction\<close>.
\<close>

theorem rule_engine_delayed:
  "(\<not> (float_gt (shock_index p) lit_0_9 \<or> float_lt (sbp p) (of_int_lit 90))
      \<and> (abnormal_count p \<ge> 3 \<or> confusion p = 1 \<or> chest_pain p = 1)
    \<longrightarrow> (\<exists>r. get_rule_based_prediction p g = Inr (r, g) \<and> risk r = ''Delayed (YELLOW)''))
   \<and> (float_le (shock_index p) lit_0_9 \<and> float_ge (sbp p) (of_int_lit 90)
      \<and> (abnormal_count p \<ge> 3 \<or> confusion p = 1 \<or> chest_pain p = 1)
    \<longrightarrow> (\<exists>r. get_rule_based_prediction p g = Inr (r, g) \<and> risk r = ''Delayed (YELLOW)''))
   \<and> (abnormal_count p = 4 \<and> confusion p = 0 \<and> chest_pain p = 0
      \<and> shock_index p = lit_0_2 \<and> sbp p = of_int_lit 110
    \<longrightarrow> (\<exists>r. get_model_prediction pd_DataFrame None stdout_write p g out = Inr (r, g, out)
          \<and> risk r = ''Delayed (YELLOW)''))"
proof (intro conjI impI)
  assume "\<not> (float_gt (shock_index p) lit_0_9 \<or> float_lt (sbp p) (of_int_lit 90))
      \<and> (abnormal_count p \<ge> 3 \<or> confusion p = 1 \<or> chest_pain p = 1)"
  then show "\<exists>r. get_rule_based_prediction p g = Inr (r, g) \<and> risk r = ''Delayed (YELLOW)''"
    by (simp add: get_rule_based_prediction_def rule_risk_def)
next
  assume a: "float_le (shock_index p) lit_0_9 \<and> float_ge (sbp p) (of_int_lit 90)
      \<and> (abnormal_count p \<ge> 3 \<or> confusion p = 1 \<or> chest_pain p = 1)"
  then have "\<not> float_gt (shock_index p) lit_0_9" and "\<not> float_lt (sbp p) (of_int_lit 90)"
    by (simp_all add: float_le_not_gt float_ge_not_lt)
  with a show "\<exists>r. get_rule_based_prediction p g = Inr (r, g) \<and> risk r = ''Delayed (YELLOW)''"
    by (simp add: get_rule_based_prediction_def rule_risk_def)
next
  assume "abnormal_count p = 4 \<and> confusion p = 0 \<and> chest_pain p = 0
      \<and> shock_index p = lit_0_2 \<and> sbp p = of_int_lit 110"
  then show "\<exists>r. get_model_prediction pd_DataFrame None stdout_write p g out = Inr (r, g, out)
          \<and> risk r = ''Delayed (YELLOW)''"
    by (simp add: get_model_prediction_def rule_fallback_def get_rule_based_prediction_def
        rule_risk_def
        float_gt_def lit_0_2_def lit_0_9_def of_int_lit_def)
qed

theorem rule_engine_delayed_witness:
  "\<not> (float_gt (shock_index patient_D) lit_0_9 \<or> float_lt (sbp patient_D) (of_int_lit 90))
   \<and> float_le (shock_index patient_D) lit_0_9 \<and> float_ge (sbp patient_D) (of_int_lit 90)
   \<and> abnormal_count patient_D = 4 \<and> confusion patient_D = 0 \<and> chest_pain patient_D = 0
   \<and> shock_index patient_D = lit_0_2 \<and> sbp patient_D = of_int_lit 110
   \<and> (\<exists>r. get_rule_based_prediction patient_D (sconst 0) = Inr (r, sconst 0)
        \<and> risk r = ''Delayed (YELLOW)'')
   \<and> (\<exists>r. get_model_prediction pandas_ok None stdout_ok patient_D (sconst 0) []
             = Inr (r, sconst 0, [])
        \<and> risk r = ''Delayed (YELLOW)'')"
  using rule_engine_delayed [where p = patient_D and g = "sconst 0"
      and pd_DataFrame = pandas_ok and stdout_write = stdout_ok and out = "[]"]
  by (simp add: patient_D_def float_gt_def float_le_def float_ge_def
      lit_0_2_def lit_0_9_def of_int_lit_def)

text \<open>
  C10. The rule engine returns \<open>Immediate (RED)\<close> only when \<open>shock_index > 0.9\<close> or
  \<open>sbp < 90\<close>: whenever the risk of its result is \<open>Immediate (RED)\<close> one of the two tests
  held; for every record with \<open>shock_index \<le> 0.9\<close> and \<open>sbp \<ge> 90\<close> the risk is
  \<open>Delayed (YELLOW)\<close> or \<open>Minimal (GREEN)\<close>; and the random choice of the last branch is
  never \<open>Immediate (RED)\<close>.
\<close>

theorem immediate_needs_rule_one:
  "(\<forall>r g'. get_rule_based_prediction p g = Inr (r, g') \<and> risk r = ''Immediate (RED)''
      \<longrightarrow> float_gt (shock_index p) lit_0_9 \<or> float_lt (sbp p) (of_int_lit 90))
   \<and> (float_le (shock_index p) lit_0_9 \<and> float_ge (sbp p) (of_int_lit 90)
      \<longrightarrow> (\<exists>r g'. get_rule_based_prediction p g = Inr (r, g')
            \<and> risk r \<in> {''Delayed (YELLOW)'', ''Minimal (GREEN)''}))
   \<and> (\<exists>r g'. random_choice [''Delayed (YELLOW)'', ''Minimal (GREEN)''] g = Inr (r, g')
        \<and> r \<noteq> ''Immediate (RED)'')"
proof (intro conjI allI impI)
  fix r g'
  assume "get_rule_based_prediction p g = Inr (r, g') \<and> risk r = ''Immediate (RED)''"
  then show "float_gt (shock_index p) lit_0_9 \<or> float_lt (sbp p) (of_int_lit 90)"
    by (auto simp: get_rule_based_prediction_def rule_risk_def random_choice_pair
        split: if_splits)
next
  assume "float_le (shock_index p) lit_0_9 \<and> float_ge (sbp p) (of_int_lit 90)"
  then have "\<not> float_gt (shock_index p) lit_0_9" and "\<not> float_lt (sbp p) (of_int_lit 90)"
    by (simp_all add: float_le_not_gt float_ge_not_lt)
  then show "\<exists>r g'. get_rule_based_prediction p g = Inr (r, g')
            \<and> risk r \<in> {''Delayed (YELLOW)'', ''Minimal (GREEN)''}"
    by (simp add: get_rule_based_prediction_def rule_risk_def random_choice_pair)
next
  show "\<exists>r g'. random_choice [''Delayed (YELLOW)'', ''Minimal (GREEN)''] g = Inr (r, g')
        \<and> r \<noteq> ''Immediate (RED)''"
    by (simp add: random_choice_pair)
qed

theorem immediate_needs_rule_one_witness:
  "get_rule_based_prediction patient_A (sconst 0)
     = Inr (\<lparr>risk = ''Immediate (RED)'', intervention = ''ICU''\<rparr>, sconst 0)
   \<and> (float_gt (shock_index patient_A) lit_0_9 \<or> float_lt (sbp patient_A) (of_int_lit 90))
   \<and> float_le (shock_index patient_R) lit_0_9 \<and> float_ge (sbp patient_R) (of_int_lit 90)
   \<and> (\<exists>r g'. get_rule_based_prediction patient_R (sconst 1) = Inr (r, g')
        \<and> risk r \<in> {''Delayed (YELLOW)'', ''Minimal (GREEN)''})"
proof -
  have a: "get_rule_based_prediction patient_A (sconst 0)
     = Inr (\<lparr>risk = ''Immediate (RED)'', intervention = ''ICU''\<rparr>, sconst 0)"
    by (simp add: get_rule_based_prediction_def rule_risk_def rule_based_intervention_def
        patient_A_def float_gt_def lit_0_9_def of_int_lit_def lower_immediate)
  have r: "float_le (shock_index patient_R) lit_0_9 \<and> float_ge (sbp patient_R) (of_int_lit 90)"
    by (simp add: patient_R_def float_le_def float_ge_def lit_0_9_def of_int_lit_def)
  from a immediate_needs_rule_one [of patient_A "sconst 0"]
  have "float_gt (shock_index patient_A) lit_0_9 \<or> float_lt (sbp patient_A) (of_int_lit 90)"
    by simp
  moreover from r immediate_needs_rule_one [of patient_R "sconst 1"]
  have "\<exists>r g'. get_rule_based_prediction patient_R (sconst 1) = Inr (r, g')
        \<and> risk r \<in> {''Delayed (YELLOW)'', ''Minimal (GREEN)''}"
    by blast
  ultimately show ?thesis using a r by blast
qed

section \<open>The intervention policy\<close>

text \<open>
  C2. For every patient record with \<open>spo2 < 88\<close> and every risk category passed in (every
  string), \<open>rule_based_intervention\<close> returns \<open>Oxygen\<close>: the test comes first and overrides
  the risk category and the other thresholds.
\<close>

theorem hypoxia_oxygen:
  assumes "float_lt (spo2 p) (of_int_lit 88)"
  shows "rule_based_intervention p risk_class = ''Oxygen''"
  using assms by (simp add: rule_based_intervention_def)

theorem hypoxia_oxygen_witness:
  "float_lt (spo2 patient_B) (of_int_lit 88)
   \<and> rule_based_intervention patient_B ''Minimal (GREEN)'' = ''Oxygen''
   \<and> rule_based_intervention patient_B ''Immediate (RED)'' = ''Oxygen''"
proof -
  have h: "float_lt (spo2 patient_B) (of_int_lit 88)"
    by (simp add: patient_B_def of_int_lit_def)
  from hypoxia_oxygen [OF h] h show ?thesis by simp
qed

text \<open>
  C5. For every patient record with \<open>spo2 \<ge> 88\<close>, the intervention for the risk category
  \<open>Immediate (RED)\<close> is \<open>ICU\<close>.
\<close>

theorem immediate_icu:
  assumes "float_ge (spo2 p) (of_int_lit 88)"
  shows "rule_based_intervention p ''Immediate (RED)'' = ''ICU''"
  using float_ge_not_lt [OF assms]
  by (simp add: rule_based_intervention_def lower_immediate)

theorem immediate_icu_witness:
  "float_ge (spo2 patient_A) (of_int_lit 88)
   \<and> rule_based_intervention patient_A ''Immediate (RED)'' = ''ICU''"
proof -
  have h: "float_ge (spo2 patient_A) (of_int_lit 88)"
    by (simp add: patient_A_def of_int_lit_def float_ge_def float_le_def)
  from immediate_icu [OF h] h show ?thesis by simp
qed

text \<open>
  C9, as the claim states it: a record with \<open>hr = 140\<close>, \<open>sbp = 120\<close>, \<open>shock_index = 0.5\<close>
  and risk category \<open>Delayed (YELLOW)\<close> gets \<open>Ventilator\<close> for every assignment of the
  remaining fields. With \<open>spo2 = 80\<close> among the remaining fields the hypoxia test fires
  first and the intervention is \<open>Oxygen\<close>.
\<close>

theorem tachycardia_ventilator_counterexample:
  "hr patient_C_hypoxic = of_int_lit 140 \<and> sbp patient_C_hypoxic = of_int_lit 120
   \<and> shock_index patient_C_hypoxic = Finite (1 / 2)
   \<and> rule_based_intervention patient_C_hypoxic ''Delayed (YELLOW)'' = ''Oxygen''
   \<and> rule_based_intervention patient_C_hypoxic ''Delayed (YELLOW)'' \<noteq> ''Ventilator''"
  by (simp add: patient_C_hypoxic_def patient_C_def rule_based_intervention_def of_int_lit_def)

text \<open>
  C9, amended: a record with \<open>hr = 140\<close>, \<open>sbp = 120\<close>, \<open>shock_index = 0.5\<close> and risk
  category \<open>Delayed (YELLOW)\<close> gets \<open>Ventilator\<close> for every assignment of the remaining
  fields in which \<open>spo2 < 88\<close> does not hold (\<open>spo2\<close> is at least 88, or NaN).
\<close>

theorem tachycardia_ventilator:
  assumes "hr p = of_int_lit 140" and "sbp p = of_int_lit 120"
    and "shock_index p = Finite (1 / 2)"
    and "\<not> float_lt (spo2 p) (of_int_lit 88)"
  shows "rule_based_intervention p ''Delayed (YELLOW)'' = ''Ventilator''"
  using assms
  by (simp add: rule_based_intervention_def lower_delayed float_gt_def of_int_lit_def)

theorem tachycardia_ventilator_witness:
  "hr patient_C = of_int_lit 140 \<and> sbp patient_C = of_int_lit 120
   \<and> shock_index patient_C = Finite (1 / 2)
   \<and> \<not> float_lt (spo2 patient_C) (of_int_lit 88)
   \<and> rule_based_intervention patient_C ''Delayed (YELLOW)'' = ''Ventilator''"
proof -
  have h: "hr patient_C = of_int_lit 140" "sbp patient_C = of_int_lit 120"
    "shock_index patient_C = Finite (1 / 2)" "\<not> float_lt (spo2 patient_C) (of_int_lit 88)"
    by (simp_all add: patient_C_def of_int_lit_def)
  from tachycardia_ventilator [OF h] h show ?thesis by simp
qed

section \<open>The classifier adapter\<close>

text \<open>
  The \<^verbatim>\<open>try\<close> block raises \<open>e\<close> exactly when building the frame raises \<open>e\<close>, when
  \<^verbatim>\<open>predict\<close> raises \<open>e\<close>, or when \<^verbatim>\<open>predict\<close> returns an empty sequence and \<open>e\<close> is
  the \<^verbatim>\<open>IndexError\<close> of its item 0.
\<close>

lemma model_risk_raises_iff:
  "model_risk pd_DataFrame predict p = Inl e \<longleftrightarrow>
     pd_DataFrame [input_row p] = Inl e
     \<or> (\<exists>input_df. pd_DataFrame [input_row p] = Inr input_df
          \<and> (predict input_df = Inl e
              \<or> (predict input_df = Inr [] \<and> e = IndexError ''list index out of range'')))"
  by (auto simp: model_risk_def first_item_def split: sum.splits list.splits)

lemma rule_fallback_result:
  "\<exists>res g'. get_rule_based_prediction p g = Inr (res, g')
     \<and> rule_fallback p g out = Inr (res, g', out)"
  by (simp add: rule_fallback_def get_rule_based_prediction_def rule_risk_def
      random_choice_pair)

text \<open>
  C3, as the claim states it: whatever exception the loaded classifier raises, the result
  is the rule engine's and the error does not reach the caller. A \<^verbatim>\<open>KeyboardInterrupt\<close>
  raised inside \<^verbatim>\<open>predict\<close> is no instance of \<^verbatim>\<open>Exception\<close>: the handler does not catch
  it, and \<open>get_model_prediction\<close> ends with it, although the rule engine has a result for
  the record.
\<close>

theorem classifier_fallback_counterexample:
  "get_model_prediction pandas_ok (Some (predict_raises keyboard_interrupt)) stdout_ok
       patient_R (sconst 1) []
     = Inl keyboard_interrupt
   \<and> get_rule_based_prediction patient_R (sconst 1)
     = Inr (\<lparr>risk = ''Minimal (GREEN)'', intervention = ''Nil''\<rparr>, sconst 1)"
  by (simp add: get_model_prediction_def model_risk_def pandas_ok_def predict_raises_def
      keyboard_interrupt_def get_rule_based_prediction_def rule_risk_def random_choice_pair
      patient_R_def rule_based_intervention_def float_gt_def lit_0_9_def lit_1_2_def
      of_int_lit_def lower_minimal)

text \<open>
  The handler itself can fail: when the classifier raises an ordinary exception but the
  standard output is closed, \<^verbatim>\<open>print\<close> raises and the fallback is not reached.
\<close>

lemma handler_print_raises:
  "get_model_prediction pandas_ok (Some (predict_raises value_error)) stdout_closed
       patient_R (sconst 1) []
     = Inl (Raised True (Inr ''I/O operation on closed file.''))"
  by (simp add: get_model_prediction_def model_risk_def pandas_ok_def predict_raises_def
      value_error_def py_print_def stdout_closed_def)

text \<open>
  C3, amended. If no classifier is loaded, or the loaded classifier raises, while the
  features are built or while it is invoked, an exception that is an instance of
  \<^verbatim>\<open>Exception\<close> and whose message the handler formats and prints without error, then for
  every record \<open>get_model_prediction\<close> returns exactly what \<open>get_rule_based_prediction\<close>
  returns for that record from the same state of the random module (the same result and
  the same state afterwards), and that is a result, not an exception: the classifier's
  error does not reach the caller.
\<close>

theorem classifier_fallback:
  assumes "MODEL = None
     \<or> (\<exists>predict e s. MODEL = Some predict
          \<and> (pd_DataFrame [input_row p] = Inl e
              \<or> (\<exists>input_df. pd_DataFrame [input_row p] = Inr input_df
                   \<and> (predict input_df = Inl e
                       \<or> (predict input_df = Inr []
                           \<and> e = IndexError ''list index out of range''))))
          \<and> is_Exception e \<and> py_str e = Inr s
          \<and> stdout_write (fallback_message s) = None)"
  shows "\<exists>res g' out'. get_rule_based_prediction p g = Inr (res, g')
     \<and> get_model_prediction pd_DataFrame MODEL stdout_write p g out = Inr (res, g', out')"
  using assms
proof
  assume "MODEL = None"
  then have "get_model_prediction pd_DataFrame MODEL stdout_write p g out
      = rule_fallback p g out"
    by (simp add: get_model_prediction_def)
  with rule_fallback_result [of p g out] show ?thesis by auto
next
  assume "\<exists>predict e s. MODEL = Some predict
          \<and> (pd_DataFrame [input_row p] = Inl e
              \<or> (\<exists>input_df. pd_DataFrame [input_row p] = Inr input_df
                   \<and> (predict input_df = Inl e
                       \<or> (predict input_df = Inr []
                           \<and> e = IndexError ''list index out of range''))))
          \<and> is_Exception e \<and> py_str e = Inr s
          \<and> stdout_write (fallback_message s) = None"
  then obtain predict e s where m: "MODEL = Some predict"
    and r: "pd_DataFrame [input_row p] = Inl e
              \<or> (\<exists>input_df. pd_DataFrame [input_row p] = Inr input_df
                   \<and> (predict input_df = Inl e
                       \<or> (predict input_df = Inr []
                           \<and> e = IndexError ''list index out of range'')))"
    and c: "is_Exception e" and f: "py_str e = Inr s"
    and w: "stdout_write (fallback_message s) = None"
    by blast
  from r have "model_risk pd_DataFrame predict p = Inl e"
    by (simp add: model_risk_raises_iff)
  with m c f w have "get_model_prediction pd_DataFrame MODEL stdout_write p g out
      = rule_fallback p g (out @ [fallback_message s])"
    by (simp add: get_model_prediction_def py_print_def)
  with rule_fallback_result [of p g "out @ [fallback_message s]"] show ?thesis by auto
qed

text \<open>
  The witness loads a classifier stub that always raises, on the record that reaches the
  random branch: the result is the rule engine's, \<open>Minimal (GREEN)\<close> when the draw is 1.
\<close>

theorem classifier_fallback_witness:
  "is_Exception value_error \<and> py_str value_error = Inr ''boom''
   \<and> stdout_ok (fallback_message ''boom'') = None
   \<and> get_rule_based_prediction patient_R (sconst 1)
     = Inr (\<lparr>risk = ''Minimal (GREEN)'', intervention = ''Nil''\<rparr>, sconst 1)
   \<and> (\<exists>out'. get_model_prediction pandas_ok (Some (predict_raises value_error)) stdout_ok
         patient_R (sconst 1) []
       = Inr (\<lparr>risk = ''Minimal (GREEN)'', intervention = ''Nil''\<rparr>, sconst 1, out'))"
proof -
  have r: "get_rule_based_prediction patient_R (sconst 1)
     = Inr (\<lparr>risk = ''Minimal (GREEN)'', intervention = ''Nil''\<rparr>, sconst 1)"
    by (simp add: get_rule_based_prediction_def rule_risk_def random_choice_pair patient_R_def
        rule_based_intervention_def float_gt_def lit_0_9_def lit_1_2_def of_int_lit_def
        lower_minimal)
  have h: "is_Exception value_error" "py_str value_error = Inr ''boom''"
    "stdout_ok (fallback_message ''boom'') = None"
    "pandas_ok [input_row patient_R] = Inr [input_row patient_R]"
    "predict_raises value_error [input_row patient_R] = Inl value_error"
    by (simp_all add: value_error_def stdout_ok_def pandas_ok_def predict_raises_def)
  have "\<exists>res g' out'. get_rule_based_prediction patient_R (sconst 1) = Inr (res, g')
     \<and> get_model_prediction pandas_ok (Some (predict_raises value_error)) stdout_ok
         patient_R (sconst 1) [] = Inr (res, g', out')"
    using h
    by (intro classifier_fallback) blast
  with r h show ?thesis by auto
qed

text \<open>
  C8. When a classifier is loaded and its prediction succeeds (the frame is built and
  \<^verbatim>\<open>predict\<close> returns a sequence with a first label \<open>c\<close>), the risk is \<open>Minimal (GREEN)\<close>
  for \<open>c = 0\<close>, \<open>Delayed (YELLOW)\<close> for \<open>c = 1\<close> and \<open>Immediate (RED)\<close> for every other
  label; the intervention is that of this risk, the random module is not read and nothing
  is printed.
\<close>

theorem classifier_label_mapping:
  assumes "pd_DataFrame [input_row p] = Inr input_df"
    and "predict input_df = Inr (c # cs)"
  shows "\<exists>r. get_model_prediction pd_DataFrame (Some predict) stdout_write p g out
         = Inr (r, g, out)
     \<and> risk r = (if c = 0 then ''Minimal (GREEN)''
                 else if c = 1 then ''Delayed (YELLOW)''
                 else ''Immediate (RED)'')
     \<and> intervention r = rule_based_intervention p (risk r)"
  using assms
  by (simp add: get_model_prediction_def model_risk_def first_item_def)

theorem classifier_label_mapping_witness:
  "(\<exists>r. get_model_prediction pandas_ok (Some (predict_returns [0])) stdout_ok
            patient_A (sconst 0) []
          = Inr (r, sconst 0, []) \<and> risk r = ''Minimal (GREEN)'')
   \<and> (\<exists>r. get_model_prediction pandas_ok (Some (predict_returns [1])) stdout_ok
            patient_A (sconst 0) []
          = Inr (r, sconst 0, []) \<and> risk r = ''Delayed (YELLOW)'')
   \<and> (\<exists>r. get_model_prediction pandas_ok (Some (predict_returns [2])) stdout_ok
            patient_A (sconst 0) []
          = Inr (r, sconst 0, []) \<and> risk r = ''Immediate (RED)'')
   \<and> (\<exists>r. get_model_prediction pandas_ok (Some (predict_returns [-7])) stdout_ok
            patient_A (sconst 0) []
          = Inr (r, sconst 0, []) \<and> risk r = ''Immediate (RED)'')"
proof -
  have f: "pandas_ok [input_row patient_A] = Inr [input_row patient_A]"
    by (simp add: pandas_ok_def)
  have l: "predict_returns [c] [input_row patient_A] = Inr [c]" for c
    by (simp add: predict_returns_def)
  note m = classifier_label_mapping [where pd_DataFrame = pandas_ok and p = patient_A
      and input_df = "[input_row patient_A]" and cs = "[]" and stdout_write = stdout_ok
      and g = "sconst 0" and out = "[]"]
  from m [where predict = "predict_returns [0]" and c = 0]
    m [where predict = "predict_returns [1]" and c = 1]
    m [where predict = "predict_returns [2]" and c = 2]
    m [where predict = "predict_returns [-7]" and c = "-7"]
    f l
  show ?thesis by simp blast
qed

section \<open>The severity scorer\<close>

text \<open>
  C4. \<open>map_risk_to_score\<close> maps \<open>Immediate (RED)\<close> to 0.9, \<open>Delayed (YELLOW)\<close> to 0.6 and
  \<open>Minimal (GREEN)\<close> to 0.2; it recognises a category by the substrings \<open>RED\<close> and
  \<open>YELLOW\<close>, and every string it does not recognise (one with neither substring) gets the
  score 0.2 of \<open>Minimal (GREEN)\<close>; for every string the score lies between 0 and 1. As a
  HOL function of the string it is total and deterministic.
\<close>

theorem severity_score:
  "map_risk_to_score ''Immediate (RED)'' = lit_0_9
   \<and> map_risk_to_score ''Delayed (YELLOW)'' = lit_0_6
   \<and> map_risk_to_score ''Minimal (GREEN)'' = lit_0_2
   \<and> (\<not> str_in ''RED'' r \<and> \<not> str_in ''YELLOW'' r \<longrightarrow> map_risk_to_score r = lit_0_2)
   \<and> float_le (of_int_lit 0) (map_risk_to_score r)
   \<and> float_le (map_risk_to_score r) (of_int_lit 1)"
proof (intro conjI impI)
  show "map_risk_to_score ''Immediate (RED)'' = lit_0_9"
    by (simp add: map_risk_to_score_def)
  show "map_risk_to_score ''Delayed (YELLOW)'' = lit_0_6"
    by (simp add: map_risk_to_score_def)
  show "map_risk_to_score ''Minimal (GREEN)'' = lit_0_2"
    by (simp add: map_risk_to_score_def)
  show "map_risk_to_score r = lit_0_2" if "\<not> str_in ''RED'' r \<and> \<not> str_in ''YELLOW'' r"
    using that by (simp add: map_risk_to_score_def)
  show "float_le (of_int_lit 0) (map_risk_to_score r)"
    by (simp add: map_risk_to_score_def float_le_def of_int_lit_def
        lit_0_9_def lit_0_6_def lit_0_2_def)
  show "float_le (map_risk_to_score r) (of_int_lit 1)"
    by (simp add: map_risk_to_score_def float_le_def of_int_lit_def
        lit_0_9_def lit_0_6_def lit_0_2_def)
qed

theorem severity_score_witness:
  "\<not> str_in ''RED'' ''Unknown'' \<and> \<not> str_in ''YELLOW'' ''Unknown''
   \<and> map_risk_to_score ''Unknown'' = lit_0_2"
proof -
  have h: "\<not> str_in ''RED'' ''Unknown'' \<and> \<not> str_in ''YELLOW'' ''Unknown''"
    by simp
  with severity_score [of "''Unknown''"] show ?thesis by blast
qed

end
